theory Spec2Isabelle
  imports Complex_Main
begin

section \<open>Data model of class Maze (src/frontend/_lib/maze.js)\<close>

text \<open>
  The methods are modelled in exact arithmetic first: a JavaScript number is a
  rational, division, multiplication and the comparisons of the source are the exact
  ones, \<open>Math.floor\<close> is \<open>\<lfloor>_\<rfloor>\<close> and \<open>Math.round\<close> rounds half up. Grid indices (the
  arguments of \<open>moveSprite\<close>, the fields of \<open>spriteCoordinates\<close>) are integers, as the
  JSDoc of the source says. The rationals have no \<open>Infinity\<close> and no \<open>NaN\<close>: where a
  result depends on the value of \<open>cellSize\<close>, it is stated for a view of positive width
  and a grid with at least one row (\<open>well_formed\<close> below), where JavaScript divides by a
  positive number too.

  The program computes in binary64, and the rounding of \<open>view.width / grid.length\<close>
  and of \<open>sprite.x / cellSize\<close> moves the answer of the bounds check at a position on
  the edge between two cells. The bounds check is therefore modelled a second time, with
  every operation rounded (\<open>cellSize_binary64\<close>, \<open>drawMaze_binary64\<close>,
  \<open>isSpriteOutOfBounds_binary64\<close>), and the claim about its value at every position
  is settled on that model. The results on runs of ticks are stated on the exact model:
  they concern whether and when a promise settles and which fields change.
\<close>

text \<open>A \<open>PIXI.Rectangle\<close>, as returned by \<open>getBounds()\<close>.\<close>

record rectangle =
  rect_x :: rat
  rect_y :: rat
  rect_width :: rat
  rect_height :: rat

text \<open>The state of the promise returned by \<open>moveSprite\<close>.\<close>

datatype promise = Pending | Resolved | Rejected string

text \<open>
  One \<open>animateMotion\<close> closure registered on \<open>app.ticker\<close>: the promise it settles
  and the two constants \<open>targetX\<close>, \<open>targetY\<close> it has captured.
\<close>

record listener =
  handle :: nat
  targetX :: rat
  targetY :: rat

text \<open>
  The fields of a \<open>Maze\<close> instance. \<open>view_width\<close> is \<open>this.app.view.width\<close>,
  \<open>sprite_x\<close>/\<open>sprite_y\<close> are \<open>this.sprite.x\<close>/\<open>this.sprite.y\<close>, \<open>ticker\<close> is the
  list of listeners added to \<open>this.app.ticker\<close> in the order of their registration,
  \<open>promises\<close> holds every promise created so far (a promise is named by its index),
  \<open>onSuccess\<close> says whether the optional handler was given and \<open>successCalls\<close> counts
  its invocations.
\<close>

record maze =
  grid :: "int list list"
  mazeCode :: string
  view_width :: rat
  walls :: "rectangle list"
  spriteCoordinates :: "int \<times> int"
  sprite_x :: rat
  sprite_y :: rat
  ticker :: "listener list"
  promises :: "promise list"
  onSuccess :: bool
  successCalls :: nat

section \<open>Library functions used by the source\<close>

definition Math_round :: "rat \<Rightarrow> rat" where
  "Math_round r = of_int \<lfloor>r + 1 / 2\<rfloor>"

definition Math_floor :: "rat \<Rightarrow> int" where
  "Math_floor r = \<lfloor>r\<rfloor>"

text \<open>\<open>PIXI.Rectangle.contains\<close>: an empty rectangle contains nothing, the left and
  top edges belong to the rectangle, the right and bottom edges do not.\<close>

definition contains :: "rectangle \<Rightarrow> rat \<Rightarrow> rat \<Rightarrow> bool" where
  "contains r x y =
     (if rect_width r \<le> 0 \<or> rect_height r \<le> 0 then False
      else if x \<ge> rect_x r \<and> x < rect_x r + rect_width r
           then (if y \<ge> rect_y r \<and> y < rect_y r + rect_height r then True else False)
      else False)"

text \<open>A promise is settled once: \<open>resolve\<close> and \<open>reject\<close> on a settled promise do nothing.\<close>

definition settle :: "nat \<Rightarrow> promise \<Rightarrow> promise list \<Rightarrow> promise list" where
  "settle h v ps = (if h < length ps \<and> ps ! h = Pending then ps[h := v] else ps)"

text \<open>\<open>app.ticker.remove(animateMotion)\<close>: the closure of promise \<open>h\<close> leaves the list.\<close>

definition ticker_remove :: "nat \<Rightarrow> listener list \<Rightarrow> listener list" where
  "ticker_remove h ls = filter (\<lambda>l. handle l \<noteq> h) ls"

section \<open>The methods of Maze\<close>

text \<open>
  \<open>this.app.view.width / this.grid.length\<close>, the exact quotient. The value the program
  holds is the binary64 value nearest to it, \<open>cellSize_binary64\<close> below.
\<close>

definition cellSize :: "maze \<Rightarrow> rat" where
  "cellSize s = view_width s / of_nat (length (grid s))"

text \<open>
  \<open>drawMaze\<close>: the two nested loops visit the cells row by row and push one square of
  side \<open>cellSize\<close> at \<open>(j * cellSize, i * cellSize)\<close> for every cell that is not \<open>0\<close>.
  The list holds the bounds of the pushed squares: \<open>domCell cs i j\<close> is what
  \<open>getBounds()\<close> returns for the square drawn for row \<open>i\<close> and column \<open>j\<close>.
\<close>

definition domCell :: "rat \<Rightarrow> nat \<Rightarrow> nat \<Rightarrow> rectangle" where
  "domCell cs i j =
     \<lparr>rect_x = of_nat j * cs, rect_y = of_nat i * cs, rect_width = cs, rect_height = cs\<rparr>"

definition drawMaze :: "maze \<Rightarrow> maze" where
  "drawMaze s =
     (let cs = cellSize s in
      s\<lparr>walls :=
          [domCell cs i j.
             i \<leftarrow> [0..<length (grid s)], j \<leftarrow> [0..<length (grid s ! i)],
             grid s ! i ! j \<noteq> 0]\<rparr>)"

definition generateSprite :: "maze \<Rightarrow> maze" where
  "generateSprite s =
     (let cs = cellSize s in
      s\<lparr>sprite_x := Math_round (of_int (fst (spriteCoordinates s)) * cs + 5 / 2),
        sprite_y := Math_round (of_int (snd (spriteCoordinates s)) * cs + 5 / 2)\<rparr>)"

text \<open>
  The constructor. \<open>generateRandomMaze\<close> and \<open>generateMazeCode\<close> are other modules:
  the grid and the maze code they return are parameters here, as are the width of the
  view and whether \<open>onSuccess\<close> was given.
\<close>

definition constructor :: "int list list \<Rightarrow> string \<Rightarrow> rat \<Rightarrow> bool \<Rightarrow> maze" where
  "constructor g code w cb =
     generateSprite
       ((drawMaze
          \<lparr>grid = g, mazeCode = code, view_width = w, walls = [],
           spriteCoordinates = (0, 0), sprite_x = 0, sprite_y = 0, ticker = [],
           promises = [], onSuccess = cb, successCalls = 0\<rparr>)
        \<lparr>spriteCoordinates := (0, 1)\<rparr>)"

text \<open>
  The loop of \<open>isSpriteOutOfBounds\<close> over \<open>this.walls\<close>, and the method in exact
  arithmetic. \<open>isSpriteOutOfBounds_binary64\<close> below is the method with the rounding of
  the program.
\<close>

fun wall_hit :: "rectangle list \<Rightarrow> rat \<Rightarrow> rat \<Rightarrow> bool" where
  "wall_hit [] x y = False"
| "wall_hit (w # ws) x y = (if contains w x y then True else wall_hit ws x y)"

definition isSpriteOutOfBounds :: "maze \<Rightarrow> bool" where
  "isSpriteOutOfBounds s =
     (let cs = cellSize s;
          x = Math_floor (sprite_x s / cs);
          y = Math_floor (sprite_y s / cs)
      in if wall_hit (walls s) (sprite_x s) (sprite_y s) then True
         else x < 0 \<or> y < 0 \<or> x \<ge> int (length (grid s)) \<or> y \<ge> int (length (grid s)))"

definition isSpriteAtFinish :: "maze \<Rightarrow> bool" where
  "isSpriteAtFinish s =
     (let cs = cellSize s;
          x = Math_floor (sprite_x s / cs);
          y = Math_floor (sprite_y s / cs)
      in x \<ge> int (length (grid s)) - 2 \<and> y \<ge> int (length (grid s)) - 2)"

text \<open>One call of the closure \<open>animateMotion\<close> of listener \<open>l\<close>.\<close>

definition animateMotion :: "listener \<Rightarrow> maze \<Rightarrow> maze" where
  "animateMotion l s =
     (if isSpriteOutOfBounds s then
        s\<lparr>promises := settle (handle l) (Rejected ''Out of bounds'') (promises s),
          ticker := ticker_remove (handle l) (ticker s)\<rparr>
      else if sprite_x s \<noteq> targetX l then
        s\<lparr>sprite_x := sprite_x s + (if sprite_x s < targetX l then 1 else - 1)\<rparr>
      else if sprite_y s \<noteq> targetY l then
        s\<lparr>sprite_y := sprite_y s + (if sprite_y s < targetY l then 1 else - 1)\<rparr>
      else
        s\<lparr>ticker := ticker_remove (handle l) (ticker s),
          successCalls :=
            (if isSpriteAtFinish s \<and> onSuccess s then successCalls s + 1
             else successCalls s),
          promises := settle (handle l) Resolved (promises s)\<rparr>)"

text \<open>
  One tick of \<open>app.ticker\<close>: every listener registered when the tick starts is called
  once, in the order of registration (a listener only ever removes itself).
\<close>

definition tick :: "maze \<Rightarrow> maze" where
  "tick s = foldl (\<lambda>t l. animateMotion l t) s (ticker s)"

primrec run :: "nat \<Rightarrow> maze \<Rightarrow> maze" where
  "run 0 s = s"
| "run (Suc k) s = run k (tick s)"

text \<open>
  \<open>moveSprite(x, y)\<close> returns the new promise (its index) and the new state: the
  executor of the promise runs at once, so the listener is on the ticker and
  \<open>spriteCoordinates\<close> is assigned before \<open>moveSprite\<close> returns.
\<close>

definition moveSprite :: "int \<Rightarrow> int \<Rightarrow> maze \<Rightarrow> nat \<times> maze" where
  "moveSprite x y s =
     (let cs = cellSize s;
          tx = Math_round (of_int x * cs) + 2;
          ty = Math_round (of_int y * cs) + 2;
          h = length (promises s)
      in (h, s\<lparr>ticker := ticker s @ [\<lparr>handle = h, targetX = tx, targetY = ty\<rparr>],
               promises := promises s @ [Pending],
               spriteCoordinates := (x, y)\<rparr>))"

definition moveSpriteY :: "int \<Rightarrow> maze \<Rightarrow> nat \<times> maze" where
  "moveSpriteY n s =
     moveSprite (fst (spriteCoordinates s)) (snd (spriteCoordinates s) + n) s"

definition moveSpriteX :: "int \<Rightarrow> maze \<Rightarrow> nat \<times> maze" where
  "moveSpriteX n s =
     moveSprite (fst (spriteCoordinates s) + n) (snd (spriteCoordinates s)) s"

definition resetSprite :: "maze \<Rightarrow> maze" where
  "resetSprite s =
     (let cs = cellSize s in
      s\<lparr>spriteCoordinates := (0, 1),
        sprite_x := Math_round (of_int 0 * cs),
        sprite_y := Math_round (of_int 1 * cs)\<rparr>)"

section \<open>Notions of the specification\<close>

text \<open>A WALL cell of the grid: a cell that exists and is not \<open>0\<close>.\<close>

definition is_WALL :: "int list list \<Rightarrow> int \<Rightarrow> int \<Rightarrow> bool" where
  "is_WALL g row col =
     (0 \<le> row \<and> 0 \<le> col \<and> nat row < length g \<and> nat col < length (g ! nat row)
      \<and> g ! nat row ! nat col \<noteq> 0)"

text \<open>The column and the row of the cell that contains the sprite's position.\<close>

definition cell_col :: "maze \<Rightarrow> int" where
  "cell_col s = \<lfloor>sprite_x s / cellSize s\<rfloor>"

definition cell_row :: "maze \<Rightarrow> int" where
  "cell_row s = \<lfloor>sprite_y s / cellSize s\<rfloor>"

text \<open>A maze as the constructor leaves it: a view of positive width, a grid with at
  least one row, and the walls that \<open>drawMaze\<close> pushed for this grid and this width.\<close>

definition well_formed :: "maze \<Rightarrow> bool" where
  "well_formed s = (0 < view_width s \<and> grid s \<noteq> [] \<and> walls s = walls (drawMaze s))"

text \<open>The cell \<open>(col, row)\<close> covers the sprite's position: the position lies in the
  square of side \<open>cellSize\<close> whose top left corner is \<open>(col * cellSize, row * cellSize)\<close>.\<close>

definition in_cell :: "maze \<Rightarrow> int \<Rightarrow> int \<Rightarrow> bool" where
  "in_cell s col row =
     (of_int col * cellSize s \<le> sprite_x s \<and> sprite_x s < of_int (col + 1) * cellSize s
      \<and> of_int row * cellSize s \<le> sprite_y s \<and> sprite_y s < of_int (row + 1) * cellSize s)"

text \<open>The number of unit steps between the sprite and the target of listener \<open>l\<close>.\<close>

definition remaining :: "listener \<Rightarrow> maze \<Rightarrow> nat" where
  "remaining l s = nat \<lfloor>\<bar>targetX l - sprite_x s\<bar> + \<bar>targetY l - sprite_y s\<bar>\<rfloor>"

text \<open>The sprite is in bounds now and at the start of each of the next \<open>k\<close> ticks.\<close>

primrec never_blocked :: "nat \<Rightarrow> maze \<Rightarrow> bool" where
  "never_blocked 0 s = (\<not> isSpriteOutOfBounds s)"
| "never_blocked (Suc k) s = (\<not> isSpriteOutOfBounds s \<and> never_blocked k (tick s))"

text \<open>\<open>b\<close> lies between \<open>a\<close> and \<open>c\<close>, whichever of the two is the larger.\<close>

definition between :: "rat \<Rightarrow> rat \<Rightarrow> rat \<Rightarrow> bool" where
  "between a b c = ((a \<le> b \<and> b \<le> c) \<or> (c \<le> b \<and> b \<le> a))"

text \<open>Every position and every target is a whole number of pixels.\<close>

definition integral :: "maze \<Rightarrow> bool" where
  "integral s =
     (sprite_x s \<in> \<int> \<and> sprite_y s \<in> \<int>
      \<and> list_all (\<lambda>l. targetX l \<in> \<int> \<and> targetY l \<in> \<int>) (ticker s))"

text \<open>Listener \<open>l\<close> is the only one on the ticker, its promise is pending, and all
  positions are whole pixels: one move is in flight and no other.\<close>

definition sole :: "listener \<Rightarrow> maze \<Rightarrow> bool" where
  "sole l s = (ticker s = [l] \<and> handle l < length (promises s)
      \<and> promises s ! handle l = Pending \<and> integral s)"

section \<open>A maze of five by five cells\<close>

text \<open>Row 1 is open from the entrance to column 3, column 3 leads down to the exit
  region; the view is 50 pixels wide, so a cell is 10 pixels wide.\<close>

definition example_grid :: "int list list" where
  "example_grid =
     [[1, 1, 1, 1, 1],
      [0, 0, 0, 0, 1],
      [1, 1, 1, 0, 1],
      [1, 1, 1, 0, 0],
      [1, 1, 1, 0, 0]]"

definition example_maze :: maze where
  "example_maze = constructor example_grid ''R3D2'' 50 True"

text \<open>Two requests in a row from the entrance, the second while the first is in
  flight: to cell \<open>(1, 1)\<close>, then to cell \<open>(3, 1)\<close>.\<close>

definition two_requests :: maze where
  "two_requests = snd (moveSprite 3 1 (snd (moveSprite 1 1 example_maze)))"

text \<open>A move from the entrance to cell \<open>(1, 1)\<close>, two ticks of it, then a reset.\<close>

definition moving_then_reset :: maze where
  "moving_then_reset = resetSprite (run 2 (snd (moveSprite 1 1 example_maze)))"

section \<open>The bounds check as the program computes it\<close>

text \<open>
  A JavaScript number is an IEEE 754 binary64 value, and every division, multiplication,
  addition and subtraction returns the binary64 value nearest to the exact result, a
  tie going to the value with an even significand. \<open>binary64 r\<close> is that value for the
  exact result \<open>r\<close>: \<open>exponent r\<close> is the \<open>e\<close> with \<open>2^e \<le> \<bar>r\<bar> < 2^(e + 1)\<close>, the values
  around \<open>r\<close> are the multiples of \<open>2^(e - 52)\<close>, and \<open>r\<close> goes to the nearest of them.
  The exponent is not bounded here: overflow to \<open>Infinity\<close> (beyond \<open>1.8e308\<close>) and
  subnormal results (below \<open>2.3e-308\<close>) are out of reach of a maze.
\<close>

function ilog2 :: "int \<Rightarrow> int" where
  "ilog2 n = (if n < 2 then 0 else 1 + ilog2 (n div 2))"
  by pat_completeness auto
termination
  by (relation "measure nat") auto

declare ilog2.simps [simp del]

function ipow2 :: "int \<Rightarrow> int" where
  "ipow2 e = (if e \<le> 0 then 1 else 2 * ipow2 (e - 1))"
  by pat_completeness auto
termination
  by (relation "measure nat") auto

declare ipow2.simps [simp del]

definition pow2 :: "int \<Rightarrow> rat" where
  "pow2 e = (if 0 \<le> e then of_int (ipow2 e) else 1 / of_int (ipow2 (- e)))"

definition exponent :: "rat \<Rightarrow> int" where
  "exponent r =
     (let (a, b) = quotient_of \<bar>r\<bar>;
          d = ilog2 a - ilog2 b
      in if pow2 d \<le> \<bar>r\<bar> then d else d - 1)"

definition round_half_even :: "rat \<Rightarrow> int" where
  "round_half_even m =
     (let f = \<lfloor>m\<rfloor>; d = m - of_int f
      in if d < 1 / 2 then f else if 1 / 2 < d then f + 1
         else if even f then f else f + 1)"

definition binary64 :: "rat \<Rightarrow> rat" where
  "binary64 r =
     (if r = 0 then 0
      else let q = pow2 (exponent r - 52)
           in sgn r * of_int (round_half_even (\<bar>r\<bar> / q)) * q)"

text \<open>
  \<open>cellSize\<close>, \<open>drawMaze\<close> and \<open>isSpriteOutOfBounds\<close> once more, each operation of the
  source rounded as the program rounds it. For the square of row \<open>i\<close> and column \<open>j\<close>,
  \<open>getBounds()\<close> maps the corners \<open>(0, 0)\<close> and \<open>(cellSize, cellSize)\<close> through the
  translation by \<open>(j * cellSize, i * cellSize)\<close> and returns the lower corner with the
  difference of the two; \<open>contains\<close> compares with \<open>x + width\<close> and \<open>y + height\<close>.
\<close>

definition cellSize_binary64 :: "maze \<Rightarrow> rat" where
  "cellSize_binary64 s = binary64 (view_width s / of_nat (length (grid s)))"

definition domCell_binary64 :: "rat \<Rightarrow> nat \<Rightarrow> nat \<Rightarrow> rectangle" where
  "domCell_binary64 cs i j =
     (let tx = binary64 (of_nat j * cs);
          ty = binary64 (of_nat i * cs)
      in \<lparr>rect_x = tx, rect_y = ty,
          rect_width = binary64 (binary64 (cs + tx) - tx),
          rect_height = binary64 (binary64 (cs + ty) - ty)\<rparr>)"

definition drawMaze_binary64 :: "maze \<Rightarrow> maze" where
  "drawMaze_binary64 s =
     (let cs = cellSize_binary64 s in
      s\<lparr>walls :=
          [domCell_binary64 cs i j.
             i \<leftarrow> [0..<length (grid s)], j \<leftarrow> [0..<length (grid s ! i)],
             grid s ! i ! j \<noteq> 0]\<rparr>)"

definition contains_binary64 :: "rectangle \<Rightarrow> rat \<Rightarrow> rat \<Rightarrow> bool" where
  "contains_binary64 r x y =
     (if rect_width r \<le> 0 \<or> rect_height r \<le> 0 then False
      else if x \<ge> rect_x r \<and> x < binary64 (rect_x r + rect_width r)
           then (if y \<ge> rect_y r \<and> y < binary64 (rect_y r + rect_height r)
                 then True else False)
      else False)"

fun wall_hit_binary64 :: "rectangle list \<Rightarrow> rat \<Rightarrow> rat \<Rightarrow> bool" where
  "wall_hit_binary64 [] x y = False"
| "wall_hit_binary64 (w # ws) x y =
     (if contains_binary64 w x y then True else wall_hit_binary64 ws x y)"

definition isSpriteOutOfBounds_binary64 :: "maze \<Rightarrow> bool" where
  "isSpriteOutOfBounds_binary64 s =
     (let cs = cellSize_binary64 s;
          x = Math_floor (binary64 (sprite_x s / cs));
          y = Math_floor (binary64 (sprite_y s / cs))
      in if wall_hit_binary64 (walls s) (sprite_x s) (sprite_y s) then True
         else x < 0 \<or> y < 0 \<or> x \<ge> int (length (grid s)) \<or> y \<ge> int (length (grid s)))"

text \<open>
  A maze of seven by seven cells on a view 116 pixels wide, its walls drawn by the
  program. The sprite has walked right from the exit cell \<open>(6, 5)\<close>, after the request
  \<open>moveSpriteX(1)\<close>, and stands on pixel \<open>(116, 85)\<close>: row 5, and the right edge of the
  view.
\<close>

definition edge_grid :: "int list list" where
  "edge_grid =
     [[1, 1, 1, 1, 1, 1, 1],
      [0, 0, 0, 0, 0, 0, 1],
      [1, 0, 1, 1, 1, 0, 1],
      [1, 0, 0, 0, 1, 0, 1],
      [1, 1, 1, 0, 1, 0, 1],
      [1, 0, 0, 0, 1, 0, 0],
      [1, 1, 1, 1, 1, 0, 0]]"

definition edge_maze :: maze where
  "edge_maze =
     drawMaze_binary64
       \<lparr>grid = edge_grid, mazeCode = ''R5D4'', view_width = 116, walls = [],
        spriteCoordinates = (7, 5), sprite_x = 116, sprite_y = 85, ticker = [],
        promises = [], onSuccess = True, successCalls = 0\<rparr>"

section \<open>The bounds check and the win check\<close>

lemma floor_cell:
  fixes cs p :: rat
  assumes "0 < cs"
  shows "(of_int c * cs \<le> p \<and> p < of_int (c + 1) * cs) \<longleftrightarrow> \<lfloor>p / cs\<rfloor> = c"
proof -
  have a: "of_int c * cs \<le> p \<longleftrightarrow> of_int c \<le> p / cs"
    using assms by (simp add: pos_le_divide_eq)
  have b: "p < of_int (c + 1) * cs \<longleftrightarrow> p / cs < of_int c + 1"
    using assms by (simp add: pos_divide_less_eq algebra_simps)
  show ?thesis
    unfolding a b by (auto simp: floor_eq_iff)
qed

lemma wall_hit_iff: "wall_hit ws x y \<longleftrightarrow> (\<exists>w \<in> set ws. contains w x y)"
  by (induction ws) auto

lemma set_walls_drawMaze:
  "set (walls (drawMaze s)) =
     {domCell (cellSize s) i j | i j.
        i < length (grid s) \<and> j < length (grid s ! i) \<and> grid s ! i ! j \<noteq> 0}"
  by (simp add: drawMaze_def Let_def) fastforce

lemma contains_domCell:
  assumes "0 < cs"
  shows "contains (domCell cs i j) x y \<longleftrightarrow> \<lfloor>x / cs\<rfloor> = int j \<and> \<lfloor>y / cs\<rfloor> = int i"
  using assms floor_cell [OF assms, of "int j" x] floor_cell [OF assms, of "int i" y]
  by (auto simp: contains_def domCell_def algebra_simps)

lemma cellSize_pos: "well_formed s \<Longrightarrow> 0 < cellSize s"
  by (auto simp: well_formed_def cellSize_def)

lemma in_cell_iff:
  "well_formed s \<Longrightarrow> in_cell s col row \<longleftrightarrow> col = cell_col s \<and> row = cell_row s"
  using floor_cell [OF cellSize_pos, of s col "sprite_x s"]
        floor_cell [OF cellSize_pos, of s row "sprite_y s"]
  by (auto simp: in_cell_def cell_col_def cell_row_def)

lemma wall_hit_is_WALL:
  assumes "well_formed s"
  shows "wall_hit (walls s) (sprite_x s) (sprite_y s)
         \<longleftrightarrow> is_WALL (grid s) (cell_row s) (cell_col s)"
proof -
  have cs: "0 < cellSize s" using assms by (rule cellSize_pos)
  have w: "walls s = walls (drawMaze s)" using assms by (simp add: well_formed_def)
  show ?thesis
  proof
    assume "wall_hit (walls s) (sprite_x s) (sprite_y s)"
    then obtain r where r: "r \<in> set (walls (drawMaze s))" "contains r (sprite_x s) (sprite_y s)"
      using w by (auto simp: wall_hit_iff)
    then obtain i j where ij: "i < length (grid s)" "j < length (grid s ! i)"
      "grid s ! i ! j \<noteq> 0" "r = domCell (cellSize s) i j"
      unfolding set_walls_drawMaze by blast
    from r(2) ij(4) have "cell_col s = int j \<and> cell_row s = int i"
      by (simp add: contains_domCell [OF cs] cell_col_def cell_row_def)
    with ij show "is_WALL (grid s) (cell_row s) (cell_col s)"
      by (simp add: is_WALL_def)
  next
    assume h: "is_WALL (grid s) (cell_row s) (cell_col s)"
    define i where "i = nat (cell_row s)"
    define j where "j = nat (cell_col s)"
    from h have ij: "i < length (grid s)" "j < length (grid s ! i)" "grid s ! i ! j \<noteq> 0"
      "cell_row s = int i" "cell_col s = int j"
      by (auto simp: is_WALL_def i_def j_def)
    have "domCell (cellSize s) i j \<in> set (walls (drawMaze s))"
      unfolding set_walls_drawMaze using ij by blast
    moreover have "contains (domCell (cellSize s) i j) (sprite_x s) (sprite_y s)"
      using ij by (simp add: contains_domCell [OF cs] cell_col_def cell_row_def)
    ultimately show "wall_hit (walls s) (sprite_x s) (sprite_y s)"
      using w by (auto simp: wall_hit_iff)
  qed
qed

lemma out_of_bounds_cell:
  assumes "well_formed s"
  shows "isSpriteOutOfBounds s \<longleftrightarrow>
           is_WALL (grid s) (cell_row s) (cell_col s)
           \<or> cell_col s < 0 \<or> cell_col s > int (length (grid s)) - 1
           \<or> cell_row s < 0 \<or> cell_row s > int (length (grid s)) - 1"
  unfolding isSpriteOutOfBounds_def Let_def Math_floor_def
  using wall_hit_is_WALL [OF assms]
  by (auto simp: cell_col_def cell_row_def)

lemma at_finish_cell:
  "isSpriteAtFinish s \<longleftrightarrow>
     cell_row s \<ge> int (length (grid s)) - 2 \<and> cell_col s \<ge> int (length (grid s)) - 2"
  by (auto simp: isSpriteAtFinish_def Let_def Math_floor_def cell_col_def cell_row_def)

subsection \<open>The bounds check at a cell edge, in binary64 arithmetic\<close>

lemma binary64_examples:
  "binary64 (1 / 10) = 3602879701896397 / 36028797018963968"
  "binary64 (- (1 / 3)) = - (6004799503160661 / 18014398509481984)"
  "binary64 116 = 116"
  "binary64 (5 / 2) = 5 / 2"
  by code_simp+

lemma edge_maze_fields:
  "grid edge_maze = edge_grid" "view_width edge_maze = 116"
  "sprite_x edge_maze = 116" "sprite_y edge_maze = 85"
  by (simp_all add: edge_maze_def drawMaze_binary64_def Let_def)

lemma edge_maze_cellSize:
  "cellSize_binary64 edge_maze = 4664442471205157 / 281474976710656"
  unfolding cellSize_binary64_def edge_maze_fields by code_simp

lemma edge_maze_no_wall: "\<not> wall_hit_binary64 (walls edge_maze) 116 85"
  by code_simp

text \<open>
  Claim C5. The claim holds of the check in exact arithmetic (\<open>out_of_bounds_cell\<close>
  above), and the program misses it at a cell edge. In a maze of seven by seven cells
  on a view 116 pixels wide, the sprite at \<open>x = 116\<close> in row 5 is past the last column:
  the cell that contains it is column 7, outside \<open>[0, 6]\<close>. The program computes
  \<open>cellSize = 16.571428571428573\<close>, then \<open>116 / cellSize = 6.999999999999999\<close>, whose
  floor is 6; no wall contains the point, and \<open>isSpriteOutOfBounds\<close> answers false.
\<close>

theorem isSpriteOutOfBounds_false_at_right_edge:
  "cellSize_binary64 edge_maze = 4664442471205157 / 281474976710656
   \<and> binary64 (sprite_x edge_maze / cellSize_binary64 edge_maze)
       = 7881299347898367 / 1125899906842624
   \<and> Math_floor (binary64 (sprite_x edge_maze / cellSize_binary64 edge_maze)) = 6
   \<and> \<not> isSpriteOutOfBounds_binary64 edge_maze
   \<and> int (length (grid edge_maze)) = 7
   \<and> cell_col edge_maze = 7
   \<and> in_cell edge_maze 7 5
   \<and> isSpriteOutOfBounds edge_maze"
proof -
  have q: "binary64 (116 / (4664442471205157 / 281474976710656))
             = 7881299347898367 / 1125899906842624"
    by code_simp
  have fx: "Math_floor (7881299347898367 / 1125899906842624) = 6"
    by code_simp
  have fy: "Math_floor (binary64 (85 / (4664442471205157 / 281474976710656))) = 5"
    by code_simp
  have n: "int (length edge_grid) = 7" by code_simp
  have c: "cellSize edge_maze = 116 / 7"
    unfolding cellSize_def edge_maze_fields by code_simp
  have col: "cell_col edge_maze = 7"
    unfolding cell_col_def c edge_maze_fields by code_simp
  have cell: "in_cell edge_maze 7 5"
    unfolding in_cell_def c edge_maze_fields by code_simp
  have b: "\<not> isSpriteOutOfBounds_binary64 edge_maze"
    unfolding isSpriteOutOfBounds_binary64_def Let_def edge_maze_cellSize edge_maze_fields
      q fx fy n
    using edge_maze_no_wall by simp
  have e: "isSpriteOutOfBounds edge_maze"
    using col n
    by (simp add: isSpriteOutOfBounds_def Let_def Math_floor_def cell_col_def edge_maze_fields)
  show ?thesis
    unfolding edge_maze_fields edge_maze_cellSize q fx
    using n col cell b e by blast
qed

text \<open>
  Claim C6. The cell that contains the sprite's position is the cell in column
  \<open>cell_col\<close> and row \<open>cell_row\<close>; \<open>isSpriteAtFinish\<close> is true exactly when that cell
  has \<open>row \<ge> n - 2\<close> and \<open>col \<ge> n - 2\<close>; and a move that completes there (its listener
  finds the sprite in bounds and on its target) calls \<open>onSuccess\<close>, when one was given.
\<close>

theorem isSpriteAtFinish_iff_exit_region:
  assumes "well_formed s"
  shows "in_cell s (cell_col s) (cell_row s)
         \<and> (isSpriteAtFinish s \<longleftrightarrow>
              cell_row s \<ge> int (length (grid s)) - 2 \<and> cell_col s \<ge> int (length (grid s)) - 2)
         \<and> (isSpriteAtFinish s \<and> onSuccess s \<and> \<not> isSpriteOutOfBounds s
              \<and> sprite_x s = targetX l \<and> sprite_y s = targetY l
            \<longrightarrow> successCalls (animateMotion l s) = successCalls s + 1
                \<and> promises (animateMotion l s) = settle (handle l) Resolved (promises s))"
  using in_cell_iff [OF assms, of "cell_col s" "cell_row s"] at_finish_cell [of s]
  by (simp add: animateMotion_def)

theorem isSpriteAtFinish_iff_exit_region_witness:
  "well_formed (example_maze\<lparr>sprite_x := 32, sprite_y := 42\<rparr>)
   \<and> in_cell (example_maze\<lparr>sprite_x := 32, sprite_y := 42\<rparr>) 3 4
   \<and> isSpriteAtFinish (example_maze\<lparr>sprite_x := 32, sprite_y := 42\<rparr>)
   \<and> successCalls (animateMotion \<lparr>handle = 0, targetX = 32, targetY = 42\<rparr>
        (example_maze\<lparr>sprite_x := 32, sprite_y := 42\<rparr>)) = 1"
proof -
  have wf: "well_formed (example_maze\<lparr>sprite_x := 32, sprite_y := 42\<rparr>)"
    by code_simp
  have c: "cell_col (example_maze\<lparr>sprite_x := 32, sprite_y := 42\<rparr>) = 3"
          "cell_row (example_maze\<lparr>sprite_x := 32, sprite_y := 42\<rparr>) = 4"
    by code_simp+
  have f: "isSpriteAtFinish (example_maze\<lparr>sprite_x := 32, sprite_y := 42\<rparr>)"
          "onSuccess (example_maze\<lparr>sprite_x := 32, sprite_y := 42\<rparr>)"
          "\<not> isSpriteOutOfBounds (example_maze\<lparr>sprite_x := 32, sprite_y := 42\<rparr>)"
          "successCalls (example_maze\<lparr>sprite_x := 32, sprite_y := 42\<rparr>) = 0"
    by code_simp+
  show ?thesis
    using wf c f
      isSpriteAtFinish_iff_exit_region [OF wf, of "\<lparr>handle = 0, targetX = 32, targetY = 42\<rparr>"]
    by simp
qed

section \<open>One tick, and runs of ticks\<close>

lemma run_Suc_right: "run (Suc k) s = tick (run k s)"
  by (induction k arbitrary: s) simp_all

lemma run_add: "run (a + b) s = run b (run a s)"
  by (induction a arbitrary: s) simp_all

lemma tick_idle: "ticker s = [] \<Longrightarrow> tick s = s"
  by (simp add: tick_def)

lemma run_idle: "ticker s = [] \<Longrightarrow> run k s = s"
  by (induction k) (simp_all add: tick_idle)

lemma tick_single: "ticker s = [l] \<Longrightarrow> tick s = animateMotion l s"
  by (simp add: tick_def)

lemma remaining_ints:
  assumes "sprite_x s = of_int a" "targetX l = of_int b" "sprite_y s = of_int c" "targetY l = of_int d"
  shows "remaining l s = nat (\<bar>b - a\<bar> + \<bar>d - c\<bar>)"
proof -
  have "\<bar>targetX l - sprite_x s\<bar> + \<bar>targetY l - sprite_y s\<bar> = (of_int (\<bar>b - a\<bar> + \<bar>d - c\<bar>) :: rat)"
    using assms by simp
  then show ?thesis
    unfolding remaining_def by (simp only: floor_of_int)
qed

lemma sole_ints:
  assumes "sole l s"
  obtains a b c d where "sprite_x s = of_int a" "targetX l = of_int b"
    "sprite_y s = of_int c" "targetY l = of_int d"
  using assms unfolding sole_def integral_def
  by (auto elim!: Ints_cases)

lemma tick_advance:
  assumes "sole l s" "\<not> isSpriteOutOfBounds s" "remaining l s \<noteq> 0"
  shows "sole l (tick s)" 
    and "Suc (remaining l (tick s)) = remaining l s"
    and "tick s =
      (if sprite_x s \<noteq> targetX l
       then s\<lparr>sprite_x := sprite_x s + (if sprite_x s < targetX l then 1 else - 1)\<rparr>
       else s\<lparr>sprite_y := sprite_y s + (if sprite_y s < targetY l then 1 else - 1)\<rparr>)"
proof -
  obtain a b c d where i: "sprite_x s = of_int a" "targetX l = of_int b"
    "sprite_y s = of_int c" "targetY l = of_int d"
    using assms(1) by (rule sole_ints)
  have r: "remaining l s = nat (\<bar>b - a\<bar> + \<bar>d - c\<bar>)"
    using i by (rule remaining_ints)
  have t: "ticker s = [l]" using assms(1) by (simp add: sole_def)
  have ne: "a \<noteq> b \<or> c \<noteq> d" using assms(3) r by auto
  show eq: "tick s =
      (if sprite_x s \<noteq> targetX l
       then s\<lparr>sprite_x := sprite_x s + (if sprite_x s < targetX l then 1 else - 1)\<rparr>
       else s\<lparr>sprite_y := sprite_y s + (if sprite_y s < targetY l then 1 else - 1)\<rparr>)"
    using ne assms(2) i by (auto simp: tick_single [OF t] animateMotion_def)
  show "sole l (tick s)"
    using assms(1) i unfolding eq sole_def integral_def by auto
  show "Suc (remaining l (tick s)) = remaining l s"
  proof (cases "a = b")
    case False
    let ?a = "a + (if a < b then 1 else - 1)"
    have "sprite_x (tick s) = of_int ?a" "sprite_y (tick s) = of_int c"
      using False i unfolding eq by auto
    from remaining_ints [OF this(1) i(2) this(2) i(4)] r False
    show ?thesis by auto
  next
    case True
    let ?c = "c + (if c < d then 1 else - 1)"
    have "sprite_x (tick s) = of_int a" "sprite_y (tick s) = of_int ?c"
      using True i unfolding eq by auto
    from remaining_ints [OF this(1) i(2) this(2) i(4)] r True ne
    show ?thesis by auto
  qed
qed


lemma never_blocked_now: "never_blocked k s \<Longrightarrow> \<not> isSpriteOutOfBounds s"
  by (cases k) simp_all

lemma run_progress:
  assumes "sole l s" "never_blocked (remaining l s) s" "k \<le> remaining l s"
  shows "sole l (run k s) \<and> remaining l (run k s) = remaining l s - k
         \<and> \<not> isSpriteOutOfBounds (run k s)
         \<and> run k s = s\<lparr>sprite_x := sprite_x (run k s), sprite_y := sprite_y (run k s)\<rparr>"
  using assms
proof (induction k arbitrary: s)
  case 0
  then show ?case by (simp add: never_blocked_now)
next
  case (Suc k)
  then obtain m where m: "remaining l s = Suc m" by (cases "remaining l s") auto
  with Suc.prems have nb: "\<not> isSpriteOutOfBounds s" "never_blocked m (tick s)" by simp_all
  have ne: "remaining l s \<noteq> 0" using m by simp
  note adv = tick_advance [OF Suc.prems(1) nb(1) ne]
  have rm: "remaining l (tick s) = m" using adv(2) m by simp
  have k: "k \<le> remaining l (tick s)" using Suc.prems(3) m rm by simp
  have ih: "sole l (run k (tick s)) \<and> remaining l (run k (tick s)) = remaining l (tick s) - k
         \<and> \<not> isSpriteOutOfBounds (run k (tick s))
         \<and> run k (tick s) = (tick s)\<lparr>sprite_x := sprite_x (run k (tick s)),
                                       sprite_y := sprite_y (run k (tick s))\<rparr>"
    using Suc.IH [OF adv(1) _ k] nb(2) rm by simp
  have fr: "(tick s)\<lparr>sprite_x := X, sprite_y := Y\<rparr> = s\<lparr>sprite_x := X, sprite_y := Y\<rparr>" for X Y
    unfolding adv(3) by simp
  show ?case
    using ih rm m fr by simp
qed

lemma remaining_zero:
  assumes "sole l s" "remaining l s = 0"
  shows "sprite_x s = targetX l \<and> sprite_y s = targetY l"
proof -
  obtain a b c d where i: "sprite_x s = of_int a" "targetX l = of_int b"
    "sprite_y s = of_int c" "targetY l = of_int d"
    using assms(1) by (rule sole_ints)
  from remaining_ints [OF i] assms(2) show ?thesis using i by auto
qed

lemma tick_complete:
  assumes "sole l s" "\<not> isSpriteOutOfBounds s" "remaining l s = 0"
  shows "tick s =
     s\<lparr>ticker := [],
       successCalls := (if isSpriteAtFinish s \<and> onSuccess s then successCalls s + 1
                        else successCalls s),
       promises := (promises s)[handle l := Resolved]\<rparr>"
proof -
  have t: "ticker s = [l]" using assms(1) by (simp add: sole_def)
  show ?thesis
    using remaining_zero [OF assms(1,3)] assms(1,2)
    by (simp add: tick_single [OF t] animateMotion_def sole_def settle_def ticker_remove_def)
qed

lemma tick_blocked:
  assumes "sole l s" "isSpriteOutOfBounds s"
  shows "tick s =
     s\<lparr>promises := (promises s)[handle l := Rejected ''Out of bounds''], ticker := []\<rparr>"
proof -
  have t: "ticker s = [l]" using assms(1) by (simp add: sole_def)
  show ?thesis
    using assms
    by (simp add: tick_single [OF t] animateMotion_def sole_def settle_def ticker_remove_def)
qed

lemma of_int_succ_le: "a < b \<Longrightarrow> (of_int a :: rat) + 1 \<le> of_int b"
proof -
  assume "a < b"
  then have "a + 1 \<le> b" by simp
  then have "(of_int (a + 1) :: rat) \<le> of_int b" by (simp only: of_int_le_iff)
  then show ?thesis by simp
qed

lemma between_step:
  assumes "sole l s" "\<not> isSpriteOutOfBounds s" "remaining l s \<noteq> 0"
  shows "between (sprite_x s) (sprite_x (tick s)) (targetX l)
       \<and> between (sprite_y s) (sprite_y (tick s)) (targetY l)"
proof -
  obtain a b c d where i: "sprite_x s = of_int a" "targetX l = of_int b"
    "sprite_y s = of_int c" "targetY l = of_int d"
    using assms(1) by (rule sole_ints)
  have "a < b \<Longrightarrow> (of_int a :: rat) + 1 \<le> of_int b" 
       "b < a \<Longrightarrow> (of_int b :: rat) \<le> of_int a - 1"
       "c < d \<Longrightarrow> (of_int c :: rat) + 1 \<le> of_int d" 
       "d < c \<Longrightarrow> (of_int d :: rat) \<le> of_int c - 1"
    using of_int_succ_le [of a b] of_int_succ_le [of b a]
          of_int_succ_le [of c d] of_int_succ_le [of d c]
    by simp_all
  moreover have "a \<noteq> b \<or> c \<noteq> d"
    using remaining_ints [OF i] assms(3) by auto
  ultimately show ?thesis
    unfolding tick_advance(3) [OF assms] using i
    by (auto simp: between_def)
qed

lemma between_trans: "between a b t \<Longrightarrow> between b c t \<Longrightarrow> between a c t"
  by (auto simp: between_def)

lemma run_between:
  assumes "sole l s" "never_blocked (remaining l s) s" "k \<le> remaining l s"
  shows "between (sprite_x s) (sprite_x (run k s)) (targetX l)
       \<and> between (sprite_y s) (sprite_y (run k s)) (targetY l)"
  using assms
proof (induction k arbitrary: s)
  case 0
  then show ?case by (auto simp: between_def)
next
  case (Suc k)
  then obtain m where m: "remaining l s = Suc m" by (cases "remaining l s") auto
  with Suc.prems have nb: "\<not> isSpriteOutOfBounds s" "never_blocked m (tick s)" by simp_all
  have ne: "remaining l s \<noteq> 0" using m by simp
  note adv = tick_advance [OF Suc.prems(1) nb(1) ne]
  have rm: "remaining l (tick s) = m" using adv(2) m by simp
  have k: "k \<le> remaining l (tick s)" using Suc.prems(3) m rm by simp
  have ih: "between (sprite_x (tick s)) (sprite_x (run k (tick s))) (targetX l)
       \<and> between (sprite_y (tick s)) (sprite_y (run k (tick s))) (targetY l)"
    using Suc.IH [OF adv(1) _ k] nb(2) rm by simp
  show ?case
    using ih between_step [OF Suc.prems(1) nb(1) ne] by (auto intro: between_trans)
qed

lemma only_position:
  assumes "t = s\<lparr>sprite_x := a, sprite_y := b\<rparr>"
  shows "promises t = promises s" "onSuccess t = onSuccess s" "successCalls t = successCalls s"
    "spriteCoordinates t = spriteCoordinates s" "ticker t = ticker s"
    "grid t = grid s" "mazeCode t = mazeCode s" "walls t = walls s" "view_width t = view_width s"
  using assms by simp_all

lemma moveSprite_sole:
  assumes "ticker s0 = []" "integral s0"
      and "moveSprite x y s0 = (h, s)" "ticker s = [l]"
  shows "sole l s" and "handle l = h" and "h = length (promises s0)"
    and "targetX l = Math_round (of_int x * cellSize s0) + 2"
    and "targetY l = Math_round (of_int y * cellSize s0) + 2"
    and "s = s0\<lparr>ticker := [l], promises := promises s0 @ [Pending], spriteCoordinates := (x, y)\<rparr>"
  using assms
  by (auto simp: moveSprite_def Let_def sole_def integral_def Math_round_def nth_append)

lemma run_after_idle:
  assumes "ticker (run k s) = []" "k \<le> j"
  shows "run j s = run k s"
proof -
  from assms(2) obtain i where "j = k + i" by (auto simp: le_iff_add)
  then show ?thesis using assms(1) by (simp add: run_add run_idle)
qed

lemma sole_move_run:
  assumes "sole l s" "never_blocked (remaining l s) s"
  shows "\<forall>k < remaining l s.
            (sprite_x (run k s) \<noteq> targetX l \<longrightarrow>
               sprite_x (run (Suc k) s)
                 = sprite_x (run k s) + (if sprite_x (run k s) < targetX l then 1 else - 1)
               \<and> sprite_y (run (Suc k) s) = sprite_y (run k s))
          \<and> (sprite_x (run k s) = targetX l \<longrightarrow>
               sprite_x (run (Suc k) s) = sprite_x (run k s)
               \<and> sprite_y (run (Suc k) s)
                 = sprite_y (run k s) + (if sprite_y (run k s) < targetY l then 1 else - 1))"
    and "\<forall>k \<le> remaining l s. promises (run k s) ! handle l = Pending"
    and "sprite_x (run (remaining l s) s) = targetX l"
    and "sprite_y (run (remaining l s) s) = targetY l"
    and "promises (run (Suc (remaining l s)) s) ! handle l = Resolved"
    and "ticker (run (Suc (remaining l s)) s) = []"
    and "successCalls (run (Suc (remaining l s)) s) =
           (if isSpriteAtFinish (run (remaining l s) s) \<and> onSuccess s
            then successCalls s + 1 else successCalls s)"
    and "\<forall>k. between (sprite_x s) (sprite_x (run k s)) (targetX l)
           \<and> between (sprite_y s) (sprite_y (run k s)) (targetY l)"
proof -
  let ?d = "remaining l s"
  note prog = run_progress [OF assms]
  show "\<forall>k < ?d.
            (sprite_x (run k s) \<noteq> targetX l \<longrightarrow>
               sprite_x (run (Suc k) s)
                 = sprite_x (run k s) + (if sprite_x (run k s) < targetX l then 1 else - 1)
               \<and> sprite_y (run (Suc k) s) = sprite_y (run k s))
          \<and> (sprite_x (run k s) = targetX l \<longrightarrow>
               sprite_x (run (Suc k) s) = sprite_x (run k s)
               \<and> sprite_y (run (Suc k) s)
                 = sprite_y (run k s) + (if sprite_y (run k s) < targetY l then 1 else - 1))"
  proof (intro allI impI)
    fix k assume k: "k < ?d"
    then have p: "sole l (run k s)" "\<not> isSpriteOutOfBounds (run k s)" "remaining l (run k s) \<noteq> 0"
      using prog [of k] by auto
    show "(sprite_x (run k s) \<noteq> targetX l \<longrightarrow>
               sprite_x (run (Suc k) s)
                 = sprite_x (run k s) + (if sprite_x (run k s) < targetX l then 1 else - 1)
               \<and> sprite_y (run (Suc k) s) = sprite_y (run k s))
          \<and> (sprite_x (run k s) = targetX l \<longrightarrow>
               sprite_x (run (Suc k) s) = sprite_x (run k s)
               \<and> sprite_y (run (Suc k) s)
                 = sprite_y (run k s) + (if sprite_y (run k s) < targetY l then 1 else - 1))"
      unfolding run_Suc_right tick_advance(3) [OF p] by simp
  qed
  have pend: "promises s ! handle l = Pending" "handle l < length (promises s)"
    using assms(1) by (simp_all add: sole_def)
  show "\<forall>k \<le> ?d. promises (run k s) ! handle l = Pending"
  proof (intro allI impI)
    fix k assume "k \<le> ?d"
    then have "run k s = s\<lparr>sprite_x := sprite_x (run k s), sprite_y := sprite_y (run k s)\<rparr>"
      using prog [of k] by blast
    then have "promises (run k s) = promises s"
      by (rule only_position)
    then show "promises (run k s) ! handle l = Pending" using pend by simp
  qed
  have fin: "sole l (run ?d s)" "remaining l (run ?d s) = 0" "\<not> isSpriteOutOfBounds (run ?d s)"
    and fr: "run ?d s = s\<lparr>sprite_x := sprite_x (run ?d s), sprite_y := sprite_y (run ?d s)\<rparr>"
    using prog [of ?d] by auto
  from remaining_zero [OF fin(1,2)]
  show at: "sprite_x (run ?d s) = targetX l" "sprite_y (run ?d s) = targetY l" by auto
  note tc = tick_complete [OF fin(1,3,2)]
  have pr: "promises (run ?d s) = promises s" "onSuccess (run ?d s) = onSuccess s"
           "successCalls (run ?d s) = successCalls s"
    by (subst fr, simp)+
  show "promises (run (Suc ?d) s) ! handle l = Resolved"
    unfolding run_Suc_right tc using pend pr by simp
  show idle: "ticker (run (Suc ?d) s) = []"
    unfolding run_Suc_right tc by simp
  show "successCalls (run (Suc ?d) s) =
           (if isSpriteAtFinish (run ?d s) \<and> onSuccess s
            then successCalls s + 1 else successCalls s)"
    unfolding run_Suc_right tc using pr by simp
  have pos: "sprite_x (run (Suc ?d) s) = targetX l" "sprite_y (run (Suc ?d) s) = targetY l"
    unfolding run_Suc_right tc using at by simp_all
  show "\<forall>k. between (sprite_x s) (sprite_x (run k s)) (targetX l)
           \<and> between (sprite_y s) (sprite_y (run k s)) (targetY l)"
  proof
    fix k
    show "between (sprite_x s) (sprite_x (run k s)) (targetX l)
           \<and> between (sprite_y s) (sprite_y (run k s)) (targetY l)"
    proof (cases "k \<le> ?d")
      case True
      then show ?thesis by (rule run_between [OF assms])
    next
      case False
      then have "run k s = run (Suc ?d) s"
        using run_after_idle [OF idle, of k] by simp
      then show ?thesis using pos by (auto simp: between_def)
    qed
  qed
qed

lemma target_in_target_cell:
  fixes cs :: rat
  assumes "5 / 2 < cs"
  shows "\<lfloor>(Math_round (of_int x * cs) + 2) / cs\<rfloor> = x"
proof -
  define v where "v = of_int x * cs"
  have pos: "0 < cs" using assms by simp
  have lo: "v - 1 / 2 < Math_round v" and hi: "Math_round v \<le> v + 1 / 2"
    unfolding Math_round_def by linarith+
  have "of_int x * cs \<le> Math_round v + 2" using lo unfolding v_def by simp
  moreover have "Math_round v + 2 < of_int (x + 1) * cs"
    using hi assms unfolding v_def by (simp add: algebra_simps)
  ultimately show ?thesis
    using floor_cell [OF pos, of x "Math_round v + 2"] unfolding v_def by simp
qed

lemma blocked_target_rejects:
  assumes "remaining l s = n" "sole l s"
      and "isSpriteOutOfBounds (s\<lparr>sprite_x := targetX l, sprite_y := targetY l\<rparr>)"
  shows "\<exists>k \<le> Suc n.
           promises (run k s) ! handle l = Rejected ''Out of bounds''
           \<and> ticker (run k s) = []
           \<and> (\<forall>j < k. promises (run j s) ! handle l = Pending)"
  using assms
proof (induction n arbitrary: s)
  case 0
  have "s\<lparr>sprite_x := targetX l, sprite_y := targetY l\<rparr> = s"
    using remaining_zero [OF "0.prems"(2,1)] by simp
  then have oob: "isSpriteOutOfBounds s" using "0.prems"(3) by simp
  have "promises (run 1 s) ! handle l = Rejected ''Out of bounds''" "ticker (run 1 s) = []"
    using tick_blocked [OF "0.prems"(2) oob] "0.prems"(2) by (simp_all add: sole_def)
  moreover have "\<forall>j < 1. promises (run j s) ! handle l = Pending"
    using "0.prems"(2) by (simp add: sole_def)
  ultimately show ?case by (intro exI [of _ 1]) simp
next
  case (Suc n)
  show ?case
  proof (cases "isSpriteOutOfBounds s")
    case True
    have "promises (run 1 s) ! handle l = Rejected ''Out of bounds''" "ticker (run 1 s) = []"
      using tick_blocked [OF Suc.prems(2) True] Suc.prems(2) by (simp_all add: sole_def)
    moreover have "\<forall>j < 1. promises (run j s) ! handle l = Pending"
      using Suc.prems(2) by (simp add: sole_def)
    ultimately show ?thesis by (intro exI [of _ 1]) simp
  next
    case False
    have ne: "remaining l s \<noteq> 0" using Suc.prems(1) by simp
    note adv = tick_advance [OF Suc.prems(2) False ne]
    have rm: "remaining l (tick s) = n" using adv(2) Suc.prems(1) by simp
    have "(tick s)\<lparr>sprite_x := targetX l, sprite_y := targetY l\<rparr>
          = s\<lparr>sprite_x := targetX l, sprite_y := targetY l\<rparr>"
      unfolding adv(3) by simp
    then have tg: "isSpriteOutOfBounds ((tick s)\<lparr>sprite_x := targetX l, sprite_y := targetY l\<rparr>)"
      using Suc.prems(3) by simp
    from Suc.IH [OF rm adv(1) tg] obtain k where k: "k \<le> Suc n"
      "promises (run k (tick s)) ! handle l = Rejected ''Out of bounds''"
      "ticker (run k (tick s)) = []"
      "\<forall>j < k. promises (run j (tick s)) ! handle l = Pending"
      by blast
    have "\<forall>j < Suc k. promises (run j s) ! handle l = Pending"
    proof (intro allI impI)
      fix j assume "j < Suc k"
      then show "promises (run j s) ! handle l = Pending"
        using k(4) Suc.prems(2) by (cases j) (simp_all add: sole_def)
    qed
    with k(1,2,3) show ?thesis by (intro exI [of _ "Suc k"]) simp
  qed
qed

lemma spriteCoordinates_animateMotion:
  "spriteCoordinates (animateMotion l s) = spriteCoordinates s"
  by (simp add: animateMotion_def)

lemma spriteCoordinates_steps:
  "spriteCoordinates (foldl (\<lambda>t l. animateMotion l t) s ls) = spriteCoordinates s"
  by (induction ls arbitrary: s) (simp_all add: spriteCoordinates_animateMotion)

lemma spriteCoordinates_tick: "spriteCoordinates (tick s) = spriteCoordinates s"
  by (simp add: tick_def spriteCoordinates_steps)

lemma spriteCoordinates_run: "spriteCoordinates (run k s) = spriteCoordinates s"
  by (induction k arbitrary: s) (simp_all add: spriteCoordinates_tick)

lemma blocked_request_rejected:
  assumes "well_formed s0" "5 / 2 < cellSize s0"
      and "ticker s0 = []" "integral s0"
      and "moveSprite x y s0 = (h, s)"
      and "is_WALL (grid s0) y x \<or> x < 0 \<or> x > int (length (grid s0)) - 1
           \<or> y < 0 \<or> y > int (length (grid s0)) - 1"
  shows "\<exists>k. promises (run k s) ! h = Rejected ''Out of bounds''
            \<and> (\<forall>j < k. promises (run j s) ! h = Pending)
            \<and> (\<forall>j \<ge> k. run j s = run k s)
            \<and> (\<forall>j. spriteCoordinates (run j s) = (x, y))"
proof -
  define l where "l = \<lparr>handle = h, targetX = Math_round (of_int x * cellSize s0) + 2,
                        targetY = Math_round (of_int y * cellSize s0) + 2\<rparr>"
  have tk: "ticker s = [l]"
    using assms(3,5) by (auto simp: moveSprite_def Let_def l_def)
  note ms = moveSprite_sole [OF assms(3,4,5) tk]
  let ?t = "s\<lparr>sprite_x := targetX l, sprite_y := targetY l\<rparr>"
  have same: "grid ?t = grid s0" "view_width ?t = view_width s0" "walls ?t = walls s0"
    by (subst ms(6), simp)+
  have cs: "cellSize ?t = cellSize s0"
    using same by (simp add: cellSize_def)
  have "walls (drawMaze ?t) = walls (drawMaze s0)"
    using same cs by (simp add: drawMaze_def Let_def)
  then have wf: "well_formed ?t"
    using assms(1) same by (simp add: well_formed_def)
  have cell: "cell_col ?t = x" "cell_row ?t = y"
    using target_in_target_cell [OF assms(2)] cs
    by (simp_all add: cell_col_def cell_row_def l_def)
  have oob: "isSpriteOutOfBounds ?t"
    unfolding out_of_bounds_cell [OF wf] cell same using assms(6) by blast
  from blocked_target_rejects [OF refl ms(1) oob] obtain k where
    k: "promises (run k s) ! handle l = Rejected ''Out of bounds''"
       "ticker (run k s) = []" "\<forall>j < k. promises (run j s) ! handle l = Pending"
    by blast
  have "\<forall>j \<ge> k. run j s = run k s"
    using run_after_idle [OF k(2)] by blast
  moreover have "\<forall>j. spriteCoordinates (run j s) = (x, y)"
    by (subst ms(6)) (simp add: spriteCoordinates_run)
  ultimately show ?thesis
    using k(1,3) ms(2) by blast
qed

section \<open>What no method changes\<close>

lemma frame_animateMotion:
  "grid (animateMotion l s) = grid s" "mazeCode (animateMotion l s) = mazeCode s"
  "walls (animateMotion l s) = walls s" "view_width (animateMotion l s) = view_width s"
  by (simp_all add: animateMotion_def)

lemma frame_steps:
  "grid (foldl (\<lambda>t l. animateMotion l t) s ls) = grid s
   \<and> mazeCode (foldl (\<lambda>t l. animateMotion l t) s ls) = mazeCode s"
  by (induction ls arbitrary: s) (simp_all add: frame_animateMotion)

lemma frame_tick: "grid (tick s) = grid s" "mazeCode (tick s) = mazeCode s"
  by (simp_all add: tick_def frame_steps)

lemma frame_run: "grid (run k s) = grid s \<and> mazeCode (run k s) = mazeCode s"
  by (induction k arbitrary: s) (simp_all add: frame_tick)

section \<open>Positions are whole pixels\<close>

lemma Math_round_Ints: "Math_round r \<in> \<int>"
  by (simp add: Math_round_def)

lemma integral_constructor: "integral (constructor g code w cb)"
  by (simp add: constructor_def generateSprite_def drawMaze_def Let_def integral_def
      Math_round_Ints)

lemma integral_moveSprite: "integral s \<Longrightarrow> integral (snd (moveSprite x y s))"
  by (simp add: moveSprite_def Let_def integral_def Math_round_Ints)

lemma integral_resetSprite: "integral s \<Longrightarrow> integral (resetSprite s)"
  by (simp add: resetSprite_def Let_def integral_def Math_round_Ints)

lemma integral_animateMotion: "integral s \<Longrightarrow> integral (animateMotion l s)"
  by (auto simp: animateMotion_def integral_def ticker_remove_def list_all_iff)

lemma integral_steps: "integral s \<Longrightarrow> integral (foldl (\<lambda>t l. animateMotion l t) s ls)"
  by (induction ls arbitrary: s) (simp_all add: integral_animateMotion)

lemma integral_tick: "integral s \<Longrightarrow> integral (tick s)"
  by (simp add: tick_def integral_steps)

lemma integral_run: "integral s \<Longrightarrow> integral (run k s)"
  by (induction k arbitrary: s) (simp_all add: integral_tick)

section \<open>The maze stays as the constructor left it\<close>

lemma well_formed_cong:
  assumes "grid t = grid s" "view_width t = view_width s" "walls t = walls s"
  shows "well_formed t = well_formed s"
proof -
  have "cellSize t = cellSize s" using assms by (simp add: cellSize_def)
  then have "walls (drawMaze t) = walls (drawMaze s)"
    using assms by (simp add: drawMaze_def Let_def)
  then show ?thesis using assms by (simp add: well_formed_def)
qed

lemma well_formed_constructor: "0 < w \<Longrightarrow> g \<noteq> [] \<Longrightarrow> well_formed (constructor g code w cb)"
  by (simp add: constructor_def generateSprite_def drawMaze_def Let_def well_formed_def
      cellSize_def)

lemma well_formed_moveSprite: "well_formed (snd (moveSprite x y s)) = well_formed s"
  by (rule well_formed_cong) (simp_all add: moveSprite_def Let_def)

lemma well_formed_resetSprite: "well_formed (resetSprite s) = well_formed s"
  by (rule well_formed_cong) (simp_all add: resetSprite_def Let_def)

lemma well_formed_animateMotion: "well_formed (animateMotion l s) = well_formed s"
  by (rule well_formed_cong) (simp_all add: frame_animateMotion)

lemma well_formed_steps:
  "well_formed (foldl (\<lambda>t l. animateMotion l t) s ls) = well_formed s"
  by (induction ls arbitrary: s) (simp_all add: well_formed_animateMotion)

lemma well_formed_tick: "well_formed (tick s) = well_formed s"
  by (simp add: tick_def well_formed_steps)

lemma well_formed_run: "well_formed (run k s) = well_formed s"
  by (induction k arbitrary: s) (simp_all add: well_formed_tick)

lemma integral_example: "integral example_maze"
  unfolding example_maze_def by (rule integral_constructor)

lemma example_facts:
  "well_formed example_maze" "ticker example_maze = []" "promises example_maze = []"
  "cellSize example_maze = 10" "sprite_x example_maze = 3" "sprite_y example_maze = 13"
  "spriteCoordinates example_maze = (0, 1)" "successCalls example_maze = 0"
  by code_simp+

section \<open>Requests into a wall or out of the grid\<close>

text \<open>
  Claim C1, as amended. In a maze as the constructor leaves it, with cells wider than
  2.5 pixels and no other move in flight, a request \<open>moveSprite x y\<close> whose target cell
  is a WALL cell or lies outside \<open>[0, n - 1]\<close> on either axis is rejected with
  \<open>''Out of bounds''\<close> after finitely many ticks: the promise is pending until then, and
  nothing changes afterwards. \<open>spriteCoordinates\<close> is not kept at the cell it had before
  the request: from the request on it is the requested cell \<open>(x, y)\<close>.
\<close>

theorem blocked_request_rejected_coordinates_overwritten:
  assumes "well_formed s0" "5 / 2 < cellSize s0"
      and "ticker s0 = []" "integral s0"
      and "moveSprite x y s0 = (h, s)"
      and "is_WALL (grid s0) y x \<or> x < 0 \<or> x > int (length (grid s0)) - 1
           \<or> y < 0 \<or> y > int (length (grid s0)) - 1"
  shows "\<exists>k. promises (run k s) ! h = Rejected ''Out of bounds''
            \<and> (\<forall>j < k. promises (run j s) ! h = Pending)
            \<and> (\<forall>j \<ge> k. run j s = run k s)
            \<and> (\<forall>j. spriteCoordinates (run j s) = (x, y))"
  using assms by (rule blocked_request_rejected)

theorem blocked_request_rejected_coordinates_overwritten_witness:
  "well_formed example_maze \<and> 5 / 2 < cellSize example_maze
   \<and> ticker example_maze = [] \<and> integral example_maze
   \<and> is_WALL (grid example_maze) 0 0
   \<and> (\<exists>k. promises (run k (snd (moveSprite 0 0 example_maze))) ! 0
              = Rejected ''Out of bounds''
          \<and> (\<forall>j < k. promises (run j (snd (moveSprite 0 0 example_maze))) ! 0 = Pending)
          \<and> (\<forall>j \<ge> k. run j (snd (moveSprite 0 0 example_maze))
                      = run k (snd (moveSprite 0 0 example_maze)))
          \<and> (\<forall>j. spriteCoordinates (run j (snd (moveSprite 0 0 example_maze))) = (0, 0)))"
proof -
  have cs: "5 / 2 < cellSize example_maze" by (simp add: example_facts)
  have mv: "moveSprite 0 0 example_maze = (0, snd (moveSprite 0 0 example_maze))"
    by (simp add: moveSprite_def Let_def example_facts)
  have wall: "is_WALL (grid example_maze) 0 0" by code_simp
  then have tg: "is_WALL (grid example_maze) 0 0 \<or> (0::int) < 0
      \<or> 0 > int (length (grid example_maze)) - 1
      \<or> (0::int) < 0 \<or> 0 > int (length (grid example_maze)) - 1" by blast
  show ?thesis
    using blocked_request_rejected_coordinates_overwritten
            [OF example_facts(1) cs example_facts(2) integral_example mv tg]
          example_facts(1,2) cs integral_example wall
    by blast
qed

text \<open>
  Counterexample to claim C1 as stated. From the entrance \<open>(0, 1)\<close> of the example maze a
  move is requested into the WALL cell \<open>(0, 0)\<close>. After six ticks the promise is rejected,
  and \<open>spriteCoordinates\<close> is the wall cell, not the entrance.
\<close>

theorem blocked_request_overwrites_spriteCoordinates:
  "is_WALL (grid example_maze) 0 0
   \<and> spriteCoordinates example_maze = (0, 1)
   \<and> promises (run 6 (snd (moveSprite 0 0 example_maze))) ! fst (moveSprite 0 0 example_maze)
       = Rejected ''Out of bounds''
   \<and> spriteCoordinates (run 6 (snd (moveSprite 0 0 example_maze))) = (0, 0)
   \<and> spriteCoordinates (run 6 (snd (moveSprite 0 0 example_maze)))
       \<noteq> spriteCoordinates example_maze"
  by code_simp

section \<open>A move that is alone in flight\<close>

text \<open>
  Claim C7, as amended. For a move requested while no other listener is on the ticker,
  from whole-pixel positions, and never blocked until it arrives: on each tick before
  arrival the position changes by exactly one unit, on the x axis while x differs from
  the target (up if below the target, down otherwise) and on the y axis afterwards; the
  position always lies between the start and the target on each axis, so it never
  overshoots; after \<open>remaining l s\<close> ticks the position is the target, the promise
  being pending until then, and the next tick resolves the promise.
\<close>

theorem sole_move_reaches_target:
  assumes "well_formed s0" "ticker s0 = []" "integral s0"
      and "moveSprite x y s0 = (h, s)" "ticker s = [l]"
      and "never_blocked (remaining l s) s"
  shows "(\<forall>k < remaining l s.
            (sprite_x (run k s) \<noteq> targetX l \<longrightarrow>
               sprite_x (run (Suc k) s)
                 = sprite_x (run k s) + (if sprite_x (run k s) < targetX l then 1 else - 1)
               \<and> sprite_y (run (Suc k) s) = sprite_y (run k s))
          \<and> (sprite_x (run k s) = targetX l \<longrightarrow>
               sprite_x (run (Suc k) s) = sprite_x (run k s)
               \<and> sprite_y (run (Suc k) s)
                 = sprite_y (run k s) + (if sprite_y (run k s) < targetY l then 1 else - 1)))
         \<and> (\<forall>k. between (sprite_x s) (sprite_x (run k s)) (targetX l)
                \<and> between (sprite_y s) (sprite_y (run k s)) (targetY l))
         \<and> sprite_x (run (remaining l s) s) = targetX l
         \<and> sprite_y (run (remaining l s) s) = targetY l
         \<and> (\<forall>k \<le> remaining l s. promises (run k s) ! h = Pending)
         \<and> promises (run (Suc (remaining l s)) s) ! h = Resolved"
proof -
  note ms = moveSprite_sole [OF assms(2,3,4,5)]
  note mv = sole_move_run [OF ms(1) assms(6)]
  show ?thesis
    using mv(1,8,3,4,2,5) unfolding ms(2) by blast
qed

theorem sole_move_reaches_target_witness:
  "well_formed example_maze \<and> ticker example_maze = [] \<and> integral example_maze
   \<and> ticker (snd (moveSprite 1 1 example_maze)) = [\<lparr>handle = 0, targetX = 12, targetY = 12\<rparr>]
   \<and> remaining \<lparr>handle = 0, targetX = 12, targetY = 12\<rparr> (snd (moveSprite 1 1 example_maze)) = 10
   \<and> never_blocked 10 (snd (moveSprite 1 1 example_maze))
   \<and> sprite_x (run 10 (snd (moveSprite 1 1 example_maze))) = 12
   \<and> sprite_y (run 10 (snd (moveSprite 1 1 example_maze))) = 12
   \<and> promises (run 11 (snd (moveSprite 1 1 example_maze))) ! 0 = Resolved"
proof -
  let ?l = "\<lparr>handle = 0, targetX = 12, targetY = 12\<rparr>"
  let ?s = "snd (moveSprite 1 1 example_maze)"
  have mv: "moveSprite 1 1 example_maze = (0, ?s)"
    by (simp add: moveSprite_def Let_def example_facts)
  have tk: "ticker ?s = [?l]" by code_simp
  have rm: "remaining ?l ?s = 10" by code_simp
  have nb: "never_blocked 10 ?s" by code_simp
  have nb': "never_blocked (remaining ?l ?s) ?s" unfolding rm by (rule nb)
  have e: "Suc 10 = 11" by simp
  have "sprite_x (run 10 ?s) = 12 \<and> sprite_y (run 10 ?s) = 12
        \<and> promises (run 11 ?s) ! 0 = Resolved"
    using sole_move_reaches_target
            [OF example_facts(1) example_facts(2) integral_example mv tk nb']
    unfolding rm e by simp
  with example_facts(1,2) integral_example tk rm nb show ?thesis by blast
qed

text \<open>
  Counterexample to claim C7 as stated. With the two requests of \<open>two_requests\<close> in
  flight, the first tick moves the sprite by two units (from 3 to 5), no tick finds the
  sprite out of bounds, and after five ticks the state is a fixed point of \<open>tick\<close>
  with both promises pending: the first listener steps back from 13 to 12, the second
  forth to 13 again, so neither move ever reaches its target.
\<close>

theorem two_moves_in_flight_never_arrive:
  "promises two_requests = [Pending, Pending]
   \<and> ticker two_requests
       = [\<lparr>handle = 0, targetX = 12, targetY = 12\<rparr>, \<lparr>handle = 1, targetX = 32, targetY = 12\<rparr>]
   \<and> sprite_x two_requests = 3
   \<and> sprite_x (tick two_requests) = 5
   \<and> never_blocked 5 two_requests
   \<and> tick (run 5 two_requests) = run 5 two_requests
   \<and> promises (run 5 two_requests) = [Pending, Pending]
   \<and> sprite_x (run 5 two_requests) = 13
   \<and> sprite_y (run 5 two_requests) = 13"
proof -
  have a: "two_requests = example_maze
      \<lparr>spriteCoordinates := (3, 1),
       ticker := [\<lparr>handle = 0, targetX = 12, targetY = 12\<rparr>,
                  \<lparr>handle = 1, targetX = 32, targetY = 12\<rparr>],
       promises := [Pending, Pending]\<rparr>"
    by code_simp
  have b: "tick two_requests = two_requests\<lparr>sprite_x := 5\<rparr>"
    by code_simp
  have c: "run 5 two_requests = two_requests\<lparr>sprite_x := 13\<rparr>"
    by code_simp
  have d: "tick (two_requests\<lparr>sprite_x := 13\<rparr>) = two_requests\<lparr>sprite_x := 13\<rparr>"
    by code_simp
  have e: "never_blocked 5 two_requests"
    by code_simp
  show ?thesis
    unfolding c d b using e unfolding a by (simp add: example_facts)
qed

section \<open>The success callback\<close>

text \<open>
  Claim C2, as amended. Every move that completes (alone in flight, never blocked) with
  the sprite in the exit region calls \<open>onSuccess\<close> once, whatever the number of earlier
  calls: the count after the move is the count before it plus one. There is no limit of
  one call in total.
\<close>

theorem completed_move_in_exit_region_calls_onSuccess:
  assumes "well_formed s0" "ticker s0 = []" "integral s0"
      and "moveSprite x y s0 = (h, s)" "ticker s = [l]"
      and "never_blocked (remaining l s) s"
  shows "promises (run (Suc (remaining l s)) s) ! h = Resolved
         \<and> successCalls (run (Suc (remaining l s)) s)
             = successCalls s0
               + (if isSpriteAtFinish (run (remaining l s) s) \<and> onSuccess s0 then 1 else 0)"
proof -
  note ms = moveSprite_sole [OF assms(2,3,4,5)]
  note mv = sole_move_run [OF ms(1) assms(6)]
  have "successCalls s = successCalls s0" "onSuccess s = onSuccess s0"
    by (subst ms(6), simp)+
  then show ?thesis
    using mv(5,7) unfolding ms(2) by simp
qed

theorem completed_move_in_exit_region_calls_onSuccess_witness:
  "well_formed (example_maze\<lparr>sprite_x := 32, sprite_y := 32, successCalls := 1\<rparr>)
   \<and> ticker (example_maze\<lparr>sprite_x := 32, sprite_y := 32, successCalls := 1\<rparr>) = []
   \<and> integral (example_maze\<lparr>sprite_x := 32, sprite_y := 32, successCalls := 1\<rparr>)
   \<and> never_blocked 10
        (snd (moveSprite 4 3 (example_maze\<lparr>sprite_x := 32, sprite_y := 32, successCalls := 1\<rparr>)))
   \<and> promises (run 11
        (snd (moveSprite 4 3 (example_maze\<lparr>sprite_x := 32, sprite_y := 32, successCalls := 1\<rparr>))))
        ! 0 = Resolved
   \<and> successCalls (run 11
        (snd (moveSprite 4 3 (example_maze\<lparr>sprite_x := 32, sprite_y := 32, successCalls := 1\<rparr>))))
        = 2"
proof -
  let ?init = "example_maze\<lparr>sprite_x := 32, sprite_y := 32, successCalls := 1\<rparr>"
  let ?l = "\<lparr>handle = 0, targetX = 42, targetY = 32\<rparr>"
  let ?t = "snd (moveSprite 4 3 ?init)"
  have w0: "well_formed ?init" by code_simp
  have t0: "ticker ?init = []" by (simp add: example_facts)
  have i0: "integral ?init" by (simp add: integral_def example_facts)
  have mv: "moveSprite 4 3 ?init = (0, ?t)"
    by (simp add: moveSprite_def Let_def example_facts)
  have tk: "ticker ?t = [?l]" by code_simp
  have rm: "remaining ?l ?t = 10" by code_simp
  have nb: "never_blocked 10 ?t" by code_simp
  have nb': "never_blocked (remaining ?l ?t) ?t" unfolding rm by (rule nb)
  have fin: "isSpriteAtFinish (run 10 ?t)" "onSuccess ?init" "successCalls ?init = 1"
    by code_simp+
  have e: "Suc 10 = 11" by simp
  have "promises (run 11 ?t) ! 0 = Resolved \<and> successCalls (run 11 ?t) = 2"
    using completed_move_in_exit_region_calls_onSuccess [OF w0 t0 i0 mv tk nb'] fin
    unfolding rm e by simp
  with w0 t0 i0 nb show ?thesis by blast
qed

text \<open>
  Counterexample to claim C2 as stated. From the entrance the sprite moves to the exit
  cell \<open>(3, 3)\<close>: the move completes on tick 49 and \<open>onSuccess\<close> is called. A second
  move, one cell to the right inside the exit region, completes eleven ticks later and
  \<open>onSuccess\<close> is called again.
\<close>

theorem onSuccess_called_twice:
  "promises (run 11 (snd (moveSpriteX 1 (run 49 (snd (moveSprite 3 3 example_maze))))))
     = [Resolved, Resolved]
   \<and> isSpriteAtFinish (run 48 (snd (moveSprite 3 3 example_maze)))
   \<and> successCalls (run 49 (snd (moveSprite 3 3 example_maze))) = 1
   \<and> successCalls (run 11 (snd (moveSpriteX 1 (run 49 (snd (moveSprite 3 3 example_maze)))))) = 2"
proof -
  have a: "run 48 (snd (moveSprite 3 3 example_maze)) = example_maze
      \<lparr>spriteCoordinates := (3, 3), sprite_x := 32, sprite_y := 32,
       ticker := [\<lparr>handle = 0, targetX = 32, targetY = 32\<rparr>], promises := [Pending]\<rparr>"
    by code_simp
  have b: "tick (example_maze
      \<lparr>spriteCoordinates := (3, 3), sprite_x := 32, sprite_y := 32,
       ticker := [\<lparr>handle = 0, targetX = 32, targetY = 32\<rparr>], promises := [Pending]\<rparr>)
     = example_maze
      \<lparr>spriteCoordinates := (3, 3), sprite_x := 32, sprite_y := 32,
       promises := [Resolved], successCalls := 1\<rparr>"
    by code_simp
  have c: "run 11 (snd (moveSpriteX 1 (example_maze
      \<lparr>spriteCoordinates := (3, 3), sprite_x := 32, sprite_y := 32,
       promises := [Resolved], successCalls := 1\<rparr>)))
     = example_maze
      \<lparr>spriteCoordinates := (4, 3), sprite_x := 42, sprite_y := 32,
       promises := [Resolved, Resolved], successCalls := 2\<rparr>"
    by code_simp
  have d: "isSpriteAtFinish (example_maze
      \<lparr>spriteCoordinates := (3, 3), sprite_x := 32, sprite_y := 32,
       ticker := [\<lparr>handle = 0, targetX = 32, targetY = 32\<rparr>], promises := [Pending]\<rparr>)"
    by code_simp
  have e: "run 49 s = tick (run 48 s)" for s
    using run_Suc_right [of 48 s] by simp
  show ?thesis
    unfolding e a b c using d by simp
qed

section \<open>Requests while a move is in flight\<close>

text \<open>
  Claim C3, as amended. \<open>moveSprite\<close> neither queues a request nor fails it when a move
  is in flight: two requests in a row return two distinct pending promises, leave the
  earlier promises as they were, put their two listeners on the ticker behind those
  already there, and the next tick calls every listener in turn, the first request's
  and then the second's, each acting on the sprite.
\<close>

theorem second_request_runs_beside_first:
  assumes "well_formed s0"
      and "moveSprite x1 y1 s0 = (h1, s1)" "moveSprite x2 y2 s1 = (h2, s2)"
  shows "h1 \<noteq> h2 \<and> promises s2 ! h1 = Pending \<and> promises s2 ! h2 = Pending
         \<and> promises s2 = promises s0 @ [Pending, Pending]
         \<and> ticker s2 = ticker s0 @
              [\<lparr>handle = h1, targetX = Math_round (of_int x1 * cellSize s0) + 2,
                targetY = Math_round (of_int y1 * cellSize s0) + 2\<rparr>,
               \<lparr>handle = h2, targetX = Math_round (of_int x2 * cellSize s0) + 2,
                targetY = Math_round (of_int y2 * cellSize s0) + 2\<rparr>]
         \<and> tick s2 =
              animateMotion \<lparr>handle = h2, targetX = Math_round (of_int x2 * cellSize s0) + 2,
                             targetY = Math_round (of_int y2 * cellSize s0) + 2\<rparr>
                (animateMotion \<lparr>handle = h1, targetX = Math_round (of_int x1 * cellSize s0) + 2,
                                 targetY = Math_round (of_int y1 * cellSize s0) + 2\<rparr>
                   (foldl (\<lambda>t l. animateMotion l t) s2 (ticker s0)))"
  using assms
  by (auto simp: moveSprite_def Let_def tick_def cellSize_def nth_append)

theorem second_request_runs_beside_first_witness:
  "well_formed example_maze
   \<and> moveSprite 1 1 example_maze = (0, snd (moveSprite 1 1 example_maze))
   \<and> moveSprite 3 1 (snd (moveSprite 1 1 example_maze)) = (1, two_requests)
   \<and> promises two_requests = [] @ [Pending, Pending]
   \<and> tick two_requests =
        animateMotion \<lparr>handle = 1, targetX = 32, targetY = 12\<rparr>
          (animateMotion \<lparr>handle = 0, targetX = 12, targetY = 12\<rparr> two_requests)"
proof -
  have a: "moveSprite 1 1 example_maze = (0, snd (moveSprite 1 1 example_maze))"
    by (simp add: moveSprite_def Let_def example_facts)
  have b: "moveSprite 3 1 (snd (moveSprite 1 1 example_maze)) = (1, two_requests)"
    by (simp add: moveSprite_def Let_def example_facts two_requests_def)
  have r: "Math_round (of_int 1 * cellSize example_maze) + 2 = 12"
          "Math_round (of_int 3 * cellSize example_maze) + 2 = 32"
    by code_simp+
  show ?thesis
    using second_request_runs_beside_first [OF example_facts(1) a b] a b
    unfolding r by (simp add: example_facts)
qed

text \<open>
  Counterexample to claim C3 as stated. After the two requests of \<open>two_requests\<close> both
  promises are pending (the second request did not fail) and both listeners are on the
  ticker (it was not queued behind the first); one tick moves the sprite from 3 to 4 by
  the first listener and from 4 to 5 by the second.
\<close>

theorem second_request_acts_in_same_tick:
  "promises two_requests ! 0 = Pending \<and> promises two_requests ! 1 = Pending
   \<and> length (ticker two_requests) = 2
   \<and> sprite_x two_requests = 3
   \<and> sprite_x (animateMotion \<lparr>handle = 0, targetX = 12, targetY = 12\<rparr> two_requests) = 4
   \<and> sprite_x (tick two_requests) = 5"
proof -
  have a: "two_requests = example_maze
      \<lparr>spriteCoordinates := (3, 1),
       ticker := [\<lparr>handle = 0, targetX = 12, targetY = 12\<rparr>,
                  \<lparr>handle = 1, targetX = 32, targetY = 12\<rparr>],
       promises := [Pending, Pending]\<rparr>"
    by code_simp
  have b: "animateMotion \<lparr>handle = 0, targetX = 12, targetY = 12\<rparr> two_requests
           = two_requests\<lparr>sprite_x := 4\<rparr>"
    by code_simp
  have c: "tick two_requests = two_requests\<lparr>sprite_x := 5\<rparr>"
    by code_simp
  show ?thesis
    unfolding b c unfolding a by (simp add: example_facts)
qed

section \<open>Reset\<close>

text \<open>
  Claim C4, as amended. \<open>resetSprite\<close> sets \<open>spriteCoordinates\<close> to the entrance
  \<open>(0, 1)\<close> from any state. It leaves the ticker and every promise as they are: a move
  in flight stays in flight and its promise is not rejected.
\<close>

theorem resetSprite_leaves_moves_in_flight:
  "spriteCoordinates (resetSprite s) = (0, 1)
   \<and> ticker (resetSprite s) = ticker s
   \<and> promises (resetSprite s) = promises s
   \<and> successCalls (resetSprite s) = successCalls s"
  by (simp add: resetSprite_def Let_def)

text \<open>
  Counterexample to claim C4 as stated. A reset two ticks into a move leaves the move's
  promise pending and its listener on the ticker; fifteen ticks later the move has
  carried the sprite from the entrance to its target and its promise is resolved.
\<close>

theorem resetSprite_does_not_cancel:
  "promises (run 2 (snd (moveSprite 1 1 example_maze))) = [Pending]
   \<and> promises moving_then_reset = [Pending]
   \<and> ticker moving_then_reset = [\<lparr>handle = 0, targetX = 12, targetY = 12\<rparr>]
   \<and> spriteCoordinates moving_then_reset = (0, 1)
   \<and> promises (run 15 moving_then_reset) = [Resolved]
   \<and> sprite_x (run 15 moving_then_reset) = 12
   \<and> sprite_y (run 15 moving_then_reset) = 12"
proof -
  have a: "run 2 (snd (moveSprite 1 1 example_maze)) = example_maze
      \<lparr>spriteCoordinates := (1, 1), sprite_x := 5,
       ticker := [\<lparr>handle = 0, targetX = 12, targetY = 12\<rparr>], promises := [Pending]\<rparr>"
    by code_simp
  have b: "moving_then_reset = example_maze
      \<lparr>sprite_x := 0, sprite_y := 10,
       ticker := [\<lparr>handle = 0, targetX = 12, targetY = 12\<rparr>], promises := [Pending]\<rparr>"
    by code_simp
  have c: "run 15 moving_then_reset = example_maze
      \<lparr>sprite_x := 12, sprite_y := 12, promises := [Resolved]\<rparr>"
    by code_simp
  show ?thesis
    unfolding a c unfolding b by (simp add: example_facts)
qed

section \<open>One step of a listener\<close>

text \<open>
  Claim C8. One call of a listener first runs the bounds check: out of bounds, it
  rejects its promise and the position stays. In bounds, it moves one unit along x
  whenever x differs from the target and leaves y alone; it moves one unit along y only
  when x equals the target. So y changes only once x is aligned, and the position
  changes only in a call whose bounds check has passed.
\<close>

theorem animateMotion_x_first_then_y:
  "(isSpriteOutOfBounds s \<longrightarrow>
      sprite_x (animateMotion l s) = sprite_x s \<and> sprite_y (animateMotion l s) = sprite_y s
      \<and> promises (animateMotion l s) = settle (handle l) (Rejected ''Out of bounds'') (promises s))
   \<and> (\<not> isSpriteOutOfBounds s \<and> sprite_x s \<noteq> targetX l \<longrightarrow>
        sprite_x (animateMotion l s) = sprite_x s + (if sprite_x s < targetX l then 1 else - 1)
        \<and> sprite_y (animateMotion l s) = sprite_y s)
   \<and> (\<not> isSpriteOutOfBounds s \<and> sprite_x s = targetX l \<and> sprite_y s \<noteq> targetY l \<longrightarrow>
        sprite_x (animateMotion l s) = sprite_x s
        \<and> sprite_y (animateMotion l s) = sprite_y s + (if sprite_y s < targetY l then 1 else - 1))
   \<and> (sprite_y (animateMotion l s) \<noteq> sprite_y s \<longrightarrow>
        sprite_x s = targetX l \<and> \<not> isSpriteOutOfBounds s)
   \<and> (sprite_x (animateMotion l s) \<noteq> sprite_x s \<longrightarrow> \<not> isSpriteOutOfBounds s)"
  by (simp add: animateMotion_def)

theorem animateMotion_x_first_then_y_witness:
  "\<not> isSpriteOutOfBounds example_maze
   \<and> sprite_x example_maze \<noteq> targetX \<lparr>handle = 0, targetX = 12, targetY = 12\<rparr>
   \<and> sprite_y example_maze \<noteq> targetY \<lparr>handle = 0, targetX = 12, targetY = 12\<rparr>
   \<and> sprite_x (animateMotion \<lparr>handle = 0, targetX = 12, targetY = 12\<rparr> example_maze) = 4
   \<and> sprite_y (animateMotion \<lparr>handle = 0, targetX = 12, targetY = 12\<rparr> example_maze) = 13"
proof -
  have a: "\<not> isSpriteOutOfBounds example_maze" by code_simp
  show ?thesis
    using animateMotion_x_first_then_y [of example_maze "\<lparr>handle = 0, targetX = 12, targetY = 12\<rparr>"] a
    by (simp add: example_facts)
qed

section \<open>The grid and the maze code\<close>

text \<open>
  Claim C9. \<open>moveSprite\<close>, \<open>moveSpriteX\<close>, \<open>moveSpriteY\<close>, \<open>resetSprite\<close>, a call of a
  listener, a tick and any run of ticks leave \<open>grid\<close> and \<open>mazeCode\<close> unchanged.
  \<open>isSpriteOutOfBounds\<close> and \<open>isSpriteAtFinish\<close> assign no field at all: they are
  functions from the state to a truth value.
\<close>

theorem grid_and_mazeCode_never_change:
  "grid (snd (moveSprite x y s)) = grid s \<and> mazeCode (snd (moveSprite x y s)) = mazeCode s
   \<and> grid (snd (moveSpriteX n s)) = grid s \<and> mazeCode (snd (moveSpriteX n s)) = mazeCode s
   \<and> grid (snd (moveSpriteY n s)) = grid s \<and> mazeCode (snd (moveSpriteY n s)) = mazeCode s
   \<and> grid (resetSprite s) = grid s \<and> mazeCode (resetSprite s) = mazeCode s
   \<and> grid (animateMotion l s) = grid s \<and> mazeCode (animateMotion l s) = mazeCode s
   \<and> grid (tick s) = grid s \<and> mazeCode (tick s) = mazeCode s
   \<and> grid (run k s) = grid s \<and> mazeCode (run k s) = mazeCode s"
  by (simp add: moveSprite_def moveSpriteX_def moveSpriteY_def resetSprite_def Let_def
      frame_animateMotion frame_tick frame_run)

section \<open>The discrete cell state\<close>

text \<open>
  Claim C10. \<open>moveSprite x y\<close> sets \<open>spriteCoordinates\<close> to \<open>(x, y)\<close> when it is called:
  the sprite has not moved and the promise is pending. No tick changes it afterwards,
  whether the move resolves or is rejected. \<open>moveSpriteX\<close> and \<open>moveSpriteY\<close> after the
  request compute their target from the requested cell \<open>(x, y)\<close>.
\<close>

theorem moveSprite_sets_spriteCoordinates_at_once:
  "spriteCoordinates (snd (moveSprite x y s)) = (x, y)
   \<and> sprite_x (snd (moveSprite x y s)) = sprite_x s
   \<and> sprite_y (snd (moveSprite x y s)) = sprite_y s
   \<and> promises (snd (moveSprite x y s)) ! fst (moveSprite x y s) = Pending
   \<and> (\<forall>k. spriteCoordinates (run k (snd (moveSprite x y s))) = (x, y))
   \<and> moveSpriteX n (snd (moveSprite x y s)) = moveSprite (x + n) y (snd (moveSprite x y s))
   \<and> moveSpriteY n (snd (moveSprite x y s)) = moveSprite x (y + n) (snd (moveSprite x y s))"
  by (simp add: moveSprite_def moveSpriteX_def moveSpriteY_def Let_def spriteCoordinates_run)

end
